theory Spec2Isabelle
  imports Complex_Main
begin

section \<open>Labels of the multi-criteria transit search\<close>

text \<open>
  The development follows \<^verbatim>\<open>app/algorithms/label.py\<close> (the current, parent-pointer
  \<^verbatim>\<open>Label\<close>) and \<^verbatim>\<open>label.py\<close> (the legacy, list-carrying \<^verbatim>\<open>Label\<close>).

  Conventions of the embedding:
  \<^item> a Python \<^verbatim>\<open>float\<close> is a \<^typ>\<open>real\<close>: arithmetic and comparisons are exact, and
    the special values (NaN, infinities) are not represented;
  \<^item> a Python \<^verbatim>\<open>int\<close> is an \<^typ>\<open>int\<close>, a \<^verbatim>\<open>str\<close> a \<^typ>\<open>string\<close>;
  \<^item> an exception is a value \<open>Inl e\<close> of the result type \<open>py_error + 'a\<close>;
  \<^item> a \<^verbatim>\<open>Dict[str, float]\<close> that is only read with \<^verbatim>\<open>.get\<close> is a map
    \<^typ>\<open>string \<rightharpoonup> real\<close>; a dictionary that is iterated is the list of its
    \<^verbatim>\<open>items()\<close> in insertion order.
\<close>

datatype py_error = ZeroDivisionError | ValueError | AttributeError | TypeError

subsection \<open>The current \<^verbatim>\<open>Label\<close> dataclass\<close>

text \<open>
  The class is recursive through \<^verbatim>\<open>parent_label: Optional["Label"]\<close>, hence a datatype
  with one constructor whose selectors carry the field names. A label is created from an
  already existing parent, so a parent chain is finite and ends in \<^verbatim>\<open>None\<close>.
\<close>

datatype Label = Label
  (arrival_time: real)
  (transfers: int)
  (convenience_sum: real)
  (congestion_sum: real)
  (max_transfer_difficulty: real)
  (parent_label: "Label option")
  (current_station_cd: string)
  (current_line: string)
  (current_direction: string)
  (visited_stations: "string set")
  (depth: int)
  (transfer_info: "(string \<times> string \<times> string) option")
  (is_first_move: bool)
  (created_round: int)

text \<open>
  \<^verbatim>\<open>avg_convenience\<close> and \<^verbatim>\<open>avg_congestion\<close> divide a float by the int \<^verbatim>\<open>depth\<close>;
  Python raises \<^verbatim>\<open>ZeroDivisionError\<close> when \<^verbatim>\<open>depth\<close> is \<^verbatim>\<open>0\<close>.
\<close>

definition route_length :: "Label \<Rightarrow> int" where
  "route_length self = depth self"

definition avg_convenience :: "Label \<Rightarrow> py_error + real" where
  "avg_convenience self =
     (if depth self = 0 then Inl ZeroDivisionError
      else Inr (convenience_sum self / real_of_int (depth self)))"

definition avg_congestion :: "Label \<Rightarrow> py_error + real" where
  "avg_congestion self =
     (if depth self = 0 then Inl ZeroDivisionError
      else Inr (congestion_sum self / real_of_int (depth self)))"

subsection \<open>Equality and hash\<close>

text \<open>
  \<^verbatim>\<open>__eq__\<close> is modelled for an argument that is a \<^verbatim>\<open>Label\<close> (the \<^verbatim>\<open>isinstance\<close>
  test passes). \<^verbatim>\<open>__hash__\<close> applies the interpreter's builtin \<^verbatim>\<open>hash\<close> to the tuple
  of the three key fields; the builtin is a parameter \<open>py_hash\<close>.
\<close>

definition label_eq :: "Label \<Rightarrow> Label \<Rightarrow> bool" where
  "label_eq self other \<longleftrightarrow>
     current_station_cd self = current_station_cd other
     \<and> current_line self = current_line other
     \<and> transfers self = transfers other"

definition label_hash :: "(string \<times> string \<times> int \<Rightarrow> int) \<Rightarrow> Label \<Rightarrow> int" where
  "label_hash py_hash self =
     py_hash (current_station_cd self, current_line self, transfers self)"

definition bucket_key :: "Label \<Rightarrow> string \<times> string \<times> int" where
  "bucket_key l = (current_station_cd l, current_line l, transfers l)"

subsection \<open>Pareto dominance\<close>

text \<open>
  \<^verbatim>\<open>dominates\<close> keeps a flag \<^verbatim>\<open>better_in_any\<close> and leaves early with \<^verbatim>\<open>False\<close>. Each
  criterion is one \<^verbatim>\<open>if\<close>/\<^verbatim>\<open>elif\<close> pair; the model threads the flag through the
  pairs in the order of the source. The two averages are properties that may raise.
\<close>

definition dominates_convenience :: "Label \<Rightarrow> Label \<Rightarrow> bool \<Rightarrow> py_error + bool" where
  "dominates_convenience self other better_in_any =
     (case avg_convenience self of Inl e \<Rightarrow> Inl e | Inr sv \<Rightarrow>
       (case avg_convenience other of Inl e \<Rightarrow> Inl e | Inr ov \<Rightarrow>
          if sv > ov then Inr True
          else if sv < ov then Inr False
          else Inr better_in_any))"

definition dominates_congestion :: "Label \<Rightarrow> Label \<Rightarrow> bool \<Rightarrow> py_error + bool" where
  "dominates_congestion self other better_in_any =
     (case avg_congestion self of Inl e \<Rightarrow> Inl e | Inr sc \<Rightarrow>
       (case avg_congestion other of Inl e \<Rightarrow> Inl e | Inr oc \<Rightarrow>
          if sc < oc then dominates_convenience self other True
          else if sc > oc then Inr False
          else dominates_convenience self other better_in_any))"

definition dominates_time :: "Label \<Rightarrow> Label \<Rightarrow> bool \<Rightarrow> py_error + bool" where
  "dominates_time self other better_in_any =
     (if arrival_time self < arrival_time other then dominates_congestion self other True
      else if arrival_time self > arrival_time other then Inr False
      else dominates_congestion self other better_in_any)"

definition dominates_difficulty :: "Label \<Rightarrow> Label \<Rightarrow> bool \<Rightarrow> py_error + bool" where
  "dominates_difficulty self other better_in_any =
     (if max_transfer_difficulty self < max_transfer_difficulty other
        then dominates_time self other True
      else if max_transfer_difficulty self > max_transfer_difficulty other then Inr False
      else dominates_time self other better_in_any)"

definition dominates :: "Label \<Rightarrow> Label \<Rightarrow> py_error + bool" where
  "dominates self other =
     (if current_station_cd self \<noteq> current_station_cd other then Inr False
      else if current_line self \<noteq> current_line other then Inr False
      else if transfers self \<noteq> transfers other then Inr False
      else if transfers self < transfers other then dominates_difficulty self other True
      else if transfers self > transfers other then Inr False
      else dominates_difficulty self other False)"

subsection \<open>Weighted score, normalised vector, \<open>\<epsilon>\<close>-similarity\<close>

text \<open>\<^verbatim>\<open>d.get(k, default)\<close> on a dictionary that holds floats.\<close>

definition dict_get :: "('k \<rightharpoonup> 'v) \<Rightarrow> 'k \<Rightarrow> 'v \<Rightarrow> 'v" where
  "dict_get d k dflt = (case d k of None \<Rightarrow> dflt | Some v \<Rightarrow> v)"

definition calculate_weighted_score :: "Label \<Rightarrow> (string \<rightharpoonup> real) \<Rightarrow> py_error + real" where
  "calculate_weighted_score self weights =
     (let norm_time = min (arrival_time self / 120) 1;
          norm_transfers = min (real_of_int (transfers self) / 4) 1;
          norm_difficulty = max_transfer_difficulty self
      in case avg_convenience self of Inl e \<Rightarrow> Inl e | Inr conv \<Rightarrow>
        (let norm_convenience = 1 - conv / 5
         in case avg_congestion self of Inl e \<Rightarrow> Inl e | Inr cong \<Rightarrow>
           (let norm_congestion = min cong 1;
                score = dict_get weights ''travel_time'' 0.2 * norm_time
                      + dict_get weights ''transfers'' 0.2 * norm_transfers
                      + dict_get weights ''transfer_difficulty'' 0.2 * norm_difficulty
                      + dict_get weights ''convenience'' 0.2 * norm_convenience
                      + dict_get weights ''congestion'' 0.2 * norm_congestion
            in Inr score)))"

definition get_normalized_vector :: "Label \<Rightarrow> py_error + real list" where
  "get_normalized_vector self =
     (let norm_time = arrival_time self / 90;
          norm_transfers = real_of_int (transfers self) / 3;
          norm_difficulty = max_transfer_difficulty self
      in case avg_convenience self of Inl e \<Rightarrow> Inl e | Inr conv \<Rightarrow>
        (let norm_convenience = conv / 5
         in case avg_congestion self of Inl e \<Rightarrow> Inl e | Inr cong \<Rightarrow>
           (let norm_congestion = cong / 1.3
            in Inr [norm_time, norm_transfers, norm_difficulty,
                    norm_convenience, norm_congestion])))"

text \<open>\<^verbatim>\<open>math.sqrt\<close> raises \<^verbatim>\<open>ValueError\<close> on a negative argument.\<close>

definition math_sqrt :: "real \<Rightarrow> py_error + real" where
  "math_sqrt x = (if x < 0 then Inl ValueError else Inr (sqrt x))"

definition criteria :: "string list" where
  "criteria = [''travel_time'', ''transfers'', ''transfer_difficulty'',
               ''convenience'', ''congestion'']"

text \<open>
  The body of the \<^verbatim>\<open>for i, criterion in enumerate(criteria)\<close> loop of
  \<^verbatim>\<open>weighted_distance\<close>, as a function from the accumulator \<^verbatim>\<open>diff_sq\<close> to its next
  value. Both vectors have five components, so the reads \<^verbatim>\<open>v1[i]\<close>, \<^verbatim>\<open>v2[i]\<close> are
  in range.
\<close>

definition distance_step ::
  "(string \<rightharpoonup> real) \<Rightarrow> real list \<Rightarrow> real list \<Rightarrow> nat \<times> string \<Rightarrow> real \<Rightarrow> real" where
  "distance_step anp_weights v1 v2 ic diff_sq =
     (let weight = dict_get anp_weights (snd ic) 0.2;
          diff = v1 ! fst ic - v2 ! fst ic
      in diff_sq + weight * diff * diff)"

definition weighted_distance :: "Label \<Rightarrow> Label \<Rightarrow> (string \<rightharpoonup> real) \<Rightarrow> py_error + real" where
  "weighted_distance self other anp_weights =
     (case get_normalized_vector self of Inl e \<Rightarrow> Inl e | Inr v1 \<Rightarrow>
       (case get_normalized_vector other of Inl e \<Rightarrow> Inl e | Inr v2 \<Rightarrow>
          math_sqrt (fold (distance_step anp_weights v1 v2) (enumerate 0 criteria) 0)))"

definition epsilon_similar ::
  "Label \<Rightarrow> Label \<Rightarrow> real \<Rightarrow> (string \<rightharpoonup> real) \<Rightarrow> py_error + bool" where
  "epsilon_similar self other epsilon anp_weights =
     (case weighted_distance self other anp_weights of Inl e \<Rightarrow> Inl e
      | Inr distance \<Rightarrow> Inr (distance \<le> epsilon))"

subsection \<open>Intermediate stations of a same-line leg\<close>

text \<open>
  \<^verbatim>\<open>station_order_map\<close> maps \<^verbatim>\<open>(station_cd, line)\<close> to the order index of the station on
  the line. The function reads it with \<^verbatim>\<open>.get\<close> and iterates over \<^verbatim>\<open>.items()\<close>, so it
  is the list of its items in insertion order (the keys of a dictionary are distinct);
  \<^verbatim>\<open>.get\<close> is \<^const>\<open>map_of\<close>. \<^verbatim>\<open>line_stations\<close> and \<^verbatim>\<open>direction\<close> are parameters the
  function never reads.

  \<^verbatim>\<open>list.sort(key=..., reverse=r)\<close> is stable; with \<^verbatim>\<open>reverse=True\<close> the list is
  reversed, sorted and reversed again, which keeps equal keys in their original order.
\<close>

type_synonym station_order_map = "((string \<times> string) \<times> int) list"

type_synonym line_stations = "((string \<times> string) \<times> (string \<times> string list) list) list"

definition list_sort :: "('a \<Rightarrow> int) \<Rightarrow> bool \<Rightarrow> 'a list \<Rightarrow> 'a list" where
  "list_sort key reverse xs =
     (if reverse then rev (sort_key key (rev xs)) else sort_key key xs)"

definition get_intermediate_stations ::
  "string \<Rightarrow> string \<Rightarrow> string \<Rightarrow> string \<Rightarrow> line_stations \<Rightarrow> station_order_map \<Rightarrow> string list"
where
  "get_intermediate_stations from_station_cd to_station_cd line direction
       line_stations station_order_map =
     (case map_of station_order_map (from_station_cd, line) of
        None \<Rightarrow> [to_station_cd]
      | Some from_order \<Rightarrow>
         (case map_of station_order_map (to_station_cd, line) of
            None \<Rightarrow> [to_station_cd]
          | Some to_order \<Rightarrow>
             (let start_idx = min from_order to_order;
                  end_idx = max from_order to_order;
                  intermediate_candidates =
                    map (\<lambda>((s_cd, s_line), s_order). (s_order, s_cd))
                      (filter (\<lambda>((s_cd, s_line), s_order).
                                 s_line = line \<and> start_idx < s_order \<and> s_order \<le> end_idx)
                         station_order_map);
                  is_ascending = from_order < to_order;
                  sorted_candidates = list_sort fst (\<not> is_ascending) intermediate_candidates;
                  result_stations = map snd sorted_candidates
              in if result_stations = [] then [to_station_cd] else result_stations)))"

subsection \<open>Route reconstruction along the parent pointers\<close>

text \<open>
  Phase 1, \<^verbatim>\<open>while cur is not None: labels_path.append(cur); cur = cur.parent_label\<close>,
  collects the chain from the leaf to the root.
\<close>

function collect_labels :: "Label option \<Rightarrow> Label list" where
  "collect_labels None = []"
| "collect_labels (Some cur) = cur # collect_labels (parent_label cur)"
  by pat_completeness auto
termination
proof (relation "measure (size_option size)")
  show "wf (measure (size_option (size :: Label \<Rightarrow> nat)))" by simp
next
  fix cur :: Label
  show "(parent_label cur, Some cur) \<in> measure (size_option size)"
    by (cases cur) simp
qed

definition labels_path_of :: "Label \<Rightarrow> Label list" where
  "labels_path_of self = rev (collect_labels (Some self))"

text \<open>
  The body of the Phase 2 loop \<^verbatim>\<open>for i, label in enumerate(labels_path)\<close>, from the
  accumulator \<^verbatim>\<open>complete_route\<close> (resp. \<^verbatim>\<open>complete_lines\<close>) to its next value. For
  \<^verbatim>\<open>i > 0\<close> the read \<^verbatim>\<open>labels_path[i - 1]\<close> is in range.
\<close>

definition route_step ::
  "line_stations \<Rightarrow> station_order_map \<Rightarrow> Label list \<Rightarrow> nat \<times> Label \<Rightarrow> string list \<Rightarrow> string list"
where
  "route_step line_stations station_order_map labels_path il complete_route =
     (let i = fst il; label = snd il
      in if i = 0 then complete_route @ [current_station_cd label]
         else
           (let prev_label = labels_path ! (i - 1);
                curr_label = label;
                is_transfer = (current_line prev_label \<noteq> current_line curr_label)
            in if is_transfer then
                 (if current_station_cd curr_label \<noteq> current_station_cd prev_label
                  then complete_route @ [current_station_cd curr_label]
                  else complete_route)
               else
                 (let intermediates =
                        get_intermediate_stations (current_station_cd prev_label)
                          (current_station_cd curr_label) (current_line curr_label)
                          (current_direction curr_label) line_stations station_order_map
                  in complete_route @ intermediates)))"

definition reconstruct_route ::
  "Label \<Rightarrow> line_stations option \<Rightarrow> station_order_map option \<Rightarrow> string list" where
  "reconstruct_route self line_stations station_order_map =
     (let labels_path = labels_path_of self
      in case line_stations of
           None \<Rightarrow> map current_station_cd labels_path
         | Some ls \<Rightarrow>
            (case station_order_map of
               None \<Rightarrow> map current_station_cd labels_path
             | Some som \<Rightarrow> fold (route_step ls som labels_path) (enumerate 0 labels_path) []))"

definition lines_step ::
  "line_stations \<Rightarrow> station_order_map \<Rightarrow> Label list \<Rightarrow> nat \<times> Label \<Rightarrow> string list \<Rightarrow> string list"
where
  "lines_step line_stations station_order_map labels_path il complete_lines =
     (let i = fst il; label = snd il
      in if i = 0 then complete_lines @ [current_line label]
         else
           (let prev_label = labels_path ! (i - 1);
                curr_label = label;
                is_transfer = (current_line prev_label \<noteq> current_line curr_label)
            in if is_transfer then
                 (if current_station_cd curr_label \<noteq> current_station_cd prev_label
                  then complete_lines @ [current_line curr_label]
                  else complete_lines)
               else
                 (let intermediates =
                        get_intermediate_stations (current_station_cd prev_label)
                          (current_station_cd curr_label) (current_line curr_label)
                          (current_direction curr_label) line_stations station_order_map
                  in complete_lines @ replicate (length intermediates) (current_line curr_label))))"

definition reconstruct_lines ::
  "Label \<Rightarrow> line_stations option \<Rightarrow> station_order_map option \<Rightarrow> string list" where
  "reconstruct_lines self line_stations station_order_map =
     (case line_stations of
        None \<Rightarrow> rev (map current_line (collect_labels (Some self)))
      | Some ls \<Rightarrow>
         (case station_order_map of
            None \<Rightarrow> rev (map current_line (collect_labels (Some self)))
          | Some som \<Rightarrow>
             (let labels_path = labels_path_of self
              in fold (lines_step ls som labels_path) (enumerate 0 labels_path) [])))"

subsection \<open>The legacy \<^verbatim>\<open>Label\<close> dataclass\<close>

text \<open>
  \<^verbatim>\<open>label.py\<close> declares nine fields; the field names carry the suffix \<open>_legacy\<close>
  because the current class uses the same names. An instance is the record of its
  declared fields. (As the file stands, the field \<^verbatim>\<open>convenience_sum\<close> without a
  default follows \<^verbatim>\<open>transfer_difficulty_list\<close> with one, an order the \<^verbatim>\<open>dataclass\<close>
  decorator refuses with \<^verbatim>\<open>TypeError\<close>; the model describes the instances the class
  body declares.)
\<close>

record LegacyLabel =
  arrival_time_legacy :: real
  transfers_legacy :: int
  transfer_difficulty_list_legacy :: "real list"
  convenience_sum_legacy :: real
  congestion_sum_legacy :: real
  route_legacy :: "string list"
  lines_legacy :: "string list"
  transfer_context_legacy :: "(string \<times> string \<times> string) list"
  created_round_legacy :: int

definition route_length_legacy :: "LegacyLabel \<Rightarrow> int" where
  "route_length_legacy self = max 1 (int (length (route_legacy self)))"

definition avg_convenience_legacy :: "LegacyLabel \<Rightarrow> real" where
  "avg_convenience_legacy self =
     convenience_sum_legacy self / real_of_int (route_length_legacy self)"

definition avg_congestion_legacy :: "LegacyLabel \<Rightarrow> real" where
  "avg_congestion_legacy self =
     congestion_sum_legacy self / real_of_int (route_length_legacy self)"

text \<open>\<^verbatim>\<open>max(xs, default=0.0)\<close>.\<close>

definition max_transfer_difficulty_legacy :: "LegacyLabel \<Rightarrow> real" where
  "max_transfer_difficulty_legacy self =
     (case transfer_difficulty_list_legacy self of
        [] \<Rightarrow> 0
      | x # xs \<Rightarrow> fold max xs x)"

text \<open>
  An attribute read \<^verbatim>\<open>self.name\<close> on an instance. The class body declares the nine
  fields, four properties and four methods; the decorator adds \<^verbatim>\<open>__init__\<close> and
  \<^verbatim>\<open>__repr__\<close>. The class defines no \<^verbatim>\<open>__getattr__\<close>, so any other name raises
  \<^verbatim>\<open>AttributeError\<close>. (The attributes every object inherits from \<^verbatim>\<open>object\<close> all have
  names of the form \<^verbatim>\<open>__x__\<close> and are not part of the model.)
\<close>

datatype py_value =
    PyFloat real
  | PyInt int
  | PyFloatList "real list"
  | PyStrList "string list"
  | PyTransferList "(string \<times> string \<times> string) list"
  | PyMethod

definition legacy_method_names :: "string list" where
  "legacy_method_names =
     [''dominates'', ''calculate_weighted_score'', ''__eq__'', ''__hash__'',
      ''__init__'', ''__repr__'']"

definition getattr_legacy :: "LegacyLabel \<Rightarrow> string \<Rightarrow> py_error + py_value" where
  "getattr_legacy self name =
     (if name = ''arrival_time'' then Inr (PyFloat (arrival_time_legacy self))
      else if name = ''transfers'' then Inr (PyInt (transfers_legacy self))
      else if name = ''transfer_difficulty_list''
        then Inr (PyFloatList (transfer_difficulty_list_legacy self))
      else if name = ''convenience_sum'' then Inr (PyFloat (convenience_sum_legacy self))
      else if name = ''congestion_sum'' then Inr (PyFloat (congestion_sum_legacy self))
      else if name = ''route'' then Inr (PyStrList (route_legacy self))
      else if name = ''lines'' then Inr (PyStrList (lines_legacy self))
      else if name = ''transfer_context''
        then Inr (PyTransferList (transfer_context_legacy self))
      else if name = ''created_round'' then Inr (PyInt (created_round_legacy self))
      else if name = ''route_length'' then Inr (PyInt (route_length_legacy self))
      else if name = ''avg_convenience'' then Inr (PyFloat (avg_convenience_legacy self))
      else if name = ''avg_congestion'' then Inr (PyFloat (avg_congestion_legacy self))
      else if name = ''max_transfer_difficulty''
        then Inr (PyFloat (max_transfer_difficulty_legacy self))
      else if name \<in> set legacy_method_names then Inr PyMethod
      else Inl AttributeError)"

text \<open>A value used as an operand of \<^verbatim>\<open>/\<close> or of \<^verbatim>\<open>min(_, 1.0)\<close> has to be a number.\<close>

definition as_number :: "py_value \<Rightarrow> py_error + real" where
  "as_number v =
     (case v of PyFloat x \<Rightarrow> Inr x | PyInt n \<Rightarrow> Inr (real_of_int n) | _ \<Rightarrow> Inl TypeError)"

definition calculate_weighted_score_legacy ::
  "LegacyLabel \<Rightarrow> (string \<rightharpoonup> real) \<Rightarrow> py_error + real" where
  "calculate_weighted_score_legacy self anp_weights =
     (let norm_time = min (arrival_time_legacy self / 120) 1;
          norm_transfers = min (real_of_int (transfers_legacy self) / 4) 1;
          norm_difficulty = max_transfer_difficulty_legacy self
      in case getattr_legacy self ''convenience_score'' of Inl e \<Rightarrow> Inl e | Inr cv \<Rightarrow>
        (case as_number cv of Inl e \<Rightarrow> Inl e | Inr convenience_score \<Rightarrow>
          (let norm_convenience = 1 - convenience_score / 5
           in case getattr_legacy self ''congestion_score'' of Inl e \<Rightarrow> Inl e | Inr gv \<Rightarrow>
             (case as_number gv of Inl e \<Rightarrow> Inl e | Inr congestion_score \<Rightarrow>
               (let norm_congestion = min congestion_score 1;
                    score = dict_get anp_weights ''travel_time'' 0.2 * norm_time
                          + dict_get anp_weights ''transfers'' 0.2 * norm_transfers
                          + dict_get anp_weights ''transfer_difficulty'' 0.2 * norm_difficulty
                          + dict_get anp_weights ''convenience'' 0.2 * norm_convenience
                          + dict_get anp_weights ''congestion'' 0.2 * norm_congestion
                in Inr score)))))"

subsection \<open>The notions of the specification\<close>

text \<open>
  The specification speaks of the mean convenience and the mean congestion of a label
  (the running sum over \<^verbatim>\<open>depth\<close>), of one label being no worse than, and strictly
  better than, another on the criteria, of the normalised cost vector, and of the weight
  of a criterion under a profile (\<open>0.2\<close> when the profile has no entry). These
  definitions follow its words; the theorems compare them with the code.
\<close>

definition mean_convenience :: "Label \<Rightarrow> real" where
  "mean_convenience l = convenience_sum l / real_of_int (depth l)"

definition mean_congestion :: "Label \<Rightarrow> real" where
  "mean_congestion l = congestion_sum l / real_of_int (depth l)"

definition no_worse :: "Label \<Rightarrow> Label \<Rightarrow> bool" where
  "no_worse a b \<longleftrightarrow>
     arrival_time a \<le> arrival_time b
     \<and> max_transfer_difficulty a \<le> max_transfer_difficulty b
     \<and> mean_congestion a \<le> mean_congestion b
     \<and> mean_convenience a \<ge> mean_convenience b
     \<and> transfers a = transfers b"

definition strictly_better :: "Label \<Rightarrow> Label \<Rightarrow> bool" where
  "strictly_better a b \<longleftrightarrow>
     arrival_time a < arrival_time b
     \<or> max_transfer_difficulty a < max_transfer_difficulty b
     \<or> mean_congestion a < mean_congestion b
     \<or> mean_convenience a > mean_convenience b
     \<or> transfers a < transfers b"

definition normalized_cost :: "Label \<Rightarrow> real list" where
  "normalized_cost l =
     [arrival_time l / 90, real_of_int (transfers l) / 3, max_transfer_difficulty l,
      mean_convenience l / 5, mean_congestion l / 1.3]"

definition weight_of :: "(string \<rightharpoonup> real) \<Rightarrow> string \<Rightarrow> real" where
  "weight_of w c = (case w c of None \<Rightarrow> 0.2 | Some x \<Rightarrow> x)"

text \<open>
  The weighted sum of squares under the square root of the distance: each criterion is
  named with its own component of the normalised cost vector.
\<close>

definition weighted_square_sum :: "Label \<Rightarrow> Label \<Rightarrow> (string \<rightharpoonup> real) \<Rightarrow> real" where
  "weighted_square_sum a b w =
       weight_of w ''travel_time'' * (arrival_time a / 90 - arrival_time b / 90)\<^sup>2
     + weight_of w ''transfers''
         * (real_of_int (transfers a) / 3 - real_of_int (transfers b) / 3)\<^sup>2
     + weight_of w ''transfer_difficulty''
         * (max_transfer_difficulty a - max_transfer_difficulty b)\<^sup>2
     + weight_of w ''convenience'' * (mean_convenience a / 5 - mean_convenience b / 5)\<^sup>2
     + weight_of w ''congestion'' * (mean_congestion a / 1.3 - mean_congestion b / 1.3)\<^sup>2"

subsection \<open>Sample data\<close>

text \<open>
  A line \<open>L\<close> with the stations \<open>A\<close>, \<open>B\<close>, \<open>C\<close> at the order indices 3, 2, 1; a root
  label at \<open>A\<close> and its child at \<open>C\<close> (a ride towards decreasing order indices); and
  two labels of one bucket that differ in arrival time only.
\<close>

definition example_order_map :: station_order_map where
  "example_order_map = [((''A'', ''L''), 3), ((''B'', ''L''), 2), ((''C'', ''L''), 1)]"

definition example_root :: Label where
  "example_root = Label 0 0 0 0 0 None ''A'' ''L'' ''down'' {''A''} 1 None True 0"

definition example_leaf :: Label where
  "example_leaf =
     Label 4 0 6 2 0 (Some example_root) ''C'' ''L'' ''down'' {''A'', ''C''} 2 None False 1"

definition example_fast :: Label where
  "example_fast = Label 45 1 6 2 (1/2) None ''S'' ''M'' ''up'' {''S''} 2 None False 1"

definition example_slow :: Label where
  "example_slow = Label 90 1 6 2 (1/2) None ''S'' ''M'' ''up'' {''S''} 2 None False 1"

text \<open>A label that differs from \<open>example_slow\<close> on each of the five criteria.\<close>

definition example_other :: Label where
  "example_other = Label 45 4 1 0 0 None ''T'' ''M'' ''up'' {''T''} 2 None False 1"

section \<open>Properties of the current label\<close>

subsection \<open>Dominance\<close>

lemmas dominates_unfold =
  dominates_def dominates_difficulty_def dominates_time_def dominates_congestion_def
  dominates_convenience_def avg_congestion_def avg_convenience_def

lemma dominates_other_bucket:
  "bucket_key self \<noteq> bucket_key other \<Longrightarrow> dominates self other = Inr False"
  by (auto simp: dominates_def bucket_key_def)

lemma dominates_same_bucket:
  assumes "depth self \<noteq> 0" "depth other \<noteq> 0"
  shows "dominates self other =
           Inr (bucket_key self = bucket_key other
                \<and> no_worse self other \<and> strictly_better self other)"
  using assms
  unfolding dominates_unfold bucket_key_def no_worse_def strictly_better_def
    mean_congestion_def mean_convenience_def
  by (simp; linarith?)

text \<open>
  A label of depth \<open>0\<close> has no averages: once the bucket, the difficulty and the time
  let the comparison through, the division raises.
\<close>

lemma dominates_depth_zero:
  assumes "bucket_key self = bucket_key other"
    and "max_transfer_difficulty self \<le> max_transfer_difficulty other"
    and "arrival_time self \<le> arrival_time other"
    and "depth self = 0 \<or> depth other = 0"
  shows "dominates self other = Inl ZeroDivisionError"
  using assms unfolding dominates_unfold bucket_key_def by auto

text \<open>So \<^verbatim>\<open>True\<close> is returned for labels with averages only.\<close>

lemma dominates_True_iff:
  "dominates self other = Inr True \<longleftrightarrow>
     depth self \<noteq> 0 \<and> depth other \<noteq> 0 \<and> bucket_key self = bucket_key other
     \<and> no_worse self other \<and> strictly_better self other"
proof (cases "depth self \<noteq> 0 \<and> depth other \<noteq> 0")
  case True
  then show ?thesis by (simp add: dominates_same_bucket)
next
  case False
  then have "dominates self other \<noteq> Inr True"
    unfolding dominates_unfold by (auto split: if_splits)
  with False show ?thesis by blast
qed

text \<open>
  Claim C1. \<^verbatim>\<open>dominates\<close> returns \<^verbatim>\<open>False\<close> for two labels that differ in station, line
  or transfer count. For labels with averages (\<^verbatim>\<open>depth\<close> not \<open>0\<close>) it returns, without
  raising, the truth value of: both labels have the same bucket key, \<open>self\<close> is no worse
  than \<open>other\<close> on each of the five criteria (time, difficulty and mean congestion at
  most, mean convenience at least, transfers equal), and \<open>self\<close> is strictly better on
  one of them. The comparisons are the exact orders \<open><\<close> and \<open>\<le>\<close> on the values.
\<close>

theorem dominates_iff_pareto:
  "(bucket_key self \<noteq> bucket_key other \<longrightarrow> dominates self other = Inr False)
   \<and> (depth self \<noteq> 0 \<and> depth other \<noteq> 0 \<longrightarrow>
        dominates self other =
          Inr (bucket_key self = bucket_key other
               \<and> no_worse self other \<and> strictly_better self other))"
  using dominates_other_bucket dominates_same_bucket by blast

theorem dominates_iff_pareto_witness:
  "depth example_fast \<noteq> 0 \<and> depth example_slow \<noteq> 0
   \<and> bucket_key example_fast = bucket_key example_slow
   \<and> no_worse example_fast example_slow \<and> strictly_better example_fast example_slow
   \<and> dominates example_fast example_slow = Inr True
   \<and> bucket_key example_root \<noteq> bucket_key example_leaf
   \<and> dominates example_root example_leaf = Inr False"
proof -
  have d: "depth example_fast \<noteq> 0 \<and> depth example_slow \<noteq> 0"
    by (simp add: example_fast_def example_slow_def)
  have k: "bucket_key example_fast = bucket_key example_slow"
    by (simp add: bucket_key_def example_fast_def example_slow_def)
  have n: "no_worse example_fast example_slow"
    by (simp add: no_worse_def mean_congestion_def mean_convenience_def
        example_fast_def example_slow_def)
  have s: "strictly_better example_fast example_slow"
    by (simp add: strictly_better_def example_fast_def example_slow_def)
  have r: "bucket_key example_root \<noteq> bucket_key example_leaf"
    by (simp add: bucket_key_def example_root_def example_leaf_def)
  from dominates_iff_pareto [of example_fast example_slow] d k n s
  have t: "dominates example_fast example_slow = Inr True" by simp
  from dominates_iff_pareto [of example_root example_leaf] r
  have f: "dominates example_root example_leaf = Inr False" by simp
  from d k n s t r f show ?thesis by simp
qed

text \<open>
  Claim C3. Dominance is asymmetric: \<open>a.dominates(b)\<close> and \<open>b.dominates(a)\<close> never both
  return \<^verbatim>\<open>True\<close>.
\<close>

theorem dominates_asymmetric:
  "\<not> (dominates a b = Inr True \<and> dominates b a = Inr True)"
  unfolding dominates_unfold by (auto split: if_splits)

subsection \<open>Equality and hash\<close>

text \<open>
  Claim C7. Two labels are equal under \<^verbatim>\<open>__eq__\<close> exactly when their bucket keys
  \<open>(current_station_cd, current_line, transfers)\<close> agree, whatever their other fields
  hold; \<^verbatim>\<open>__hash__\<close> is the builtin hash of the bucket key alone; so equal labels
  have equal hashes.
\<close>

theorem label_eq_hash_bucket_key:
  "(label_eq a b \<longleftrightarrow> bucket_key a = bucket_key b)
   \<and> label_hash py_hash a = py_hash (bucket_key a)
   \<and> (label_eq a b \<longrightarrow> label_hash py_hash a = label_hash py_hash b)"
  by (auto simp: label_eq_def label_hash_def bucket_key_def)

theorem label_eq_hash_bucket_key_witness:
  "label_eq example_fast example_slow
   \<and> example_fast \<noteq> example_slow
   \<and> label_hash (\<lambda>(s, l, t). int (length s) + int (length l) + t) example_fast
     = label_hash (\<lambda>(s, l, t). int (length s) + int (length l) + t) example_slow"
proof -
  have k: "bucket_key example_fast = bucket_key example_slow"
    by (simp add: bucket_key_def example_fast_def example_slow_def)
  have ne: "example_fast \<noteq> example_slow"
    by (simp add: example_fast_def example_slow_def)
  from label_eq_hash_bucket_key [of example_fast example_slow] k
  have e: "label_eq example_fast example_slow" by simp
  from label_eq_hash_bucket_key [of example_fast example_slow] e
  have "label_hash py_hash example_fast = label_hash py_hash example_slow" for py_hash
    by blast
  with e ne show ?thesis by blast
qed

subsection \<open>Normalised vector, weighted score, \<open>\<epsilon>\<close>-similarity\<close>

lemma normalized_vector_value:
  "depth l \<noteq> 0 \<Longrightarrow> get_normalized_vector l = Inr (normalized_cost l)"
  by (simp add: get_normalized_vector_def avg_convenience_def avg_congestion_def
      normalized_cost_def mean_convenience_def mean_congestion_def)

lemma normalized_vector_depth_zero:
  "depth l = 0 \<Longrightarrow> get_normalized_vector l = Inl ZeroDivisionError"
  by (simp add: get_normalized_vector_def avg_convenience_def)

text \<open>
  Claim C4. For a label with averages (\<^verbatim>\<open>depth\<close> not \<open>0\<close>, as for every label of a
  parent chain, whose depth counts the chain), \<^verbatim>\<open>get_normalized_vector\<close> returns the
  five components arrival time over 90, transfers over 3, the maximal transfer
  difficulty, mean convenience over 5 and mean congestion over 1.3, where each mean is
  the running sum over \<^verbatim>\<open>depth\<close>.
\<close>

theorem get_normalized_vector_components:
  "depth l \<noteq> 0 \<Longrightarrow>
   get_normalized_vector l =
     Inr [arrival_time l / 90,
          real_of_int (transfers l) / 3,
          max_transfer_difficulty l,
          (convenience_sum l / real_of_int (depth l)) / 5,
          (congestion_sum l / real_of_int (depth l)) / 1.3]"
  by (simp add: normalized_vector_value normalized_cost_def mean_convenience_def
      mean_congestion_def)

theorem get_normalized_vector_components_witness:
  "depth example_leaf \<noteq> 0
   \<and> get_normalized_vector example_leaf = Inr [2 / 45, 0, 0, 3 / 5, 10 / 13]"
proof -
  have d: "depth example_leaf \<noteq> 0" by (simp add: example_leaf_def)
  from get_normalized_vector_components [OF d]
  have "get_normalized_vector example_leaf = Inr [2 / 45, 0, 0, 3 / 5, 10 / 13]"
    by (simp add: example_leaf_def)
  with d show ?thesis by simp
qed

lemma dict_get_weight: "dict_get w c (1 / 5) = weight_of w c"
  by (simp add: dict_get_def weight_of_def split: option.splits)

text \<open>
  Claim C5. For a label with averages and any weight map, \<^verbatim>\<open>calculate_weighted_score\<close>
  returns the sum, over the five criteria, of the weight of the criterion (looked up
  under its key, \<open>0.2\<close> when absent) times the normalised value: time over 120 capped
  at 1, transfers over 4 capped at 1, the difficulty as it is, one minus mean
  convenience over 5, and mean congestion capped at 1.
\<close>

theorem calculate_weighted_score_value:
  "depth l \<noteq> 0 \<Longrightarrow>
   calculate_weighted_score l w =
     Inr (weight_of w ''travel_time'' * min (arrival_time l / 120) 1
        + weight_of w ''transfers'' * min (real_of_int (transfers l) / 4) 1
        + weight_of w ''transfer_difficulty'' * max_transfer_difficulty l
        + weight_of w ''convenience'' * (1 - mean_convenience l / 5)
        + weight_of w ''congestion'' * min (mean_congestion l) 1)"
  by (simp add: calculate_weighted_score_def avg_convenience_def avg_congestion_def
      mean_convenience_def mean_congestion_def dict_get_weight Let_def)

theorem calculate_weighted_score_value_witness:
  "depth example_slow \<noteq> 0
   \<and> calculate_weighted_score example_slow [''travel_time'' \<mapsto> 1, ''congestion'' \<mapsto> 2]
     = Inr (149 / 50)"
proof -
  have d: "depth example_slow \<noteq> 0" by (simp add: example_slow_def)
  from calculate_weighted_score_value [OF d, of "[''travel_time'' \<mapsto> 1, ''congestion'' \<mapsto> 2]"]
  have "calculate_weighted_score example_slow [''travel_time'' \<mapsto> 1, ''congestion'' \<mapsto> 2]
        = Inr (149 / 50)"
    by (simp add: example_slow_def weight_of_def mean_convenience_def mean_congestion_def)
  with d show ?thesis by simp
qed

text \<open>
  The loop of \<^verbatim>\<open>weighted_distance\<close> over two five-component vectors, unrolled: the
  \<open>i\<close>-th criterion name of the list weighs the \<open>i\<close>-th components.
\<close>

lemma fold_distance_step:
  "fold (distance_step w [a0, a1, a2, a3, a4] [b0, b1, b2, b3, b4]) (enumerate 0 criteria) 0 =
       weight_of w ''travel_time'' * (a0 - b0)\<^sup>2
     + weight_of w ''transfers'' * (a1 - b1)\<^sup>2
     + weight_of w ''transfer_difficulty'' * (a2 - b2)\<^sup>2
     + weight_of w ''convenience'' * (a3 - b3)\<^sup>2
     + weight_of w ''congestion'' * (a4 - b4)\<^sup>2"
  by (simp add: criteria_def distance_step_def dict_get_weight Let_def power2_eq_square)

lemma weighted_distance_value:
  assumes "depth a \<noteq> 0" "depth b \<noteq> 0"
  shows "weighted_distance a b w = math_sqrt (weighted_square_sum a b w)"
  using assms
  by (simp add: weighted_distance_def normalized_vector_value normalized_cost_def
      fold_distance_step weighted_square_sum_def)

lemma weighted_square_sum_nonneg:
  assumes "0 \<le> weight_of w ''travel_time''" and "0 \<le> weight_of w ''transfers''"
    and "0 \<le> weight_of w ''transfer_difficulty''" and "0 \<le> weight_of w ''convenience''"
    and "0 \<le> weight_of w ''congestion''"
  shows "0 \<le> weighted_square_sum a b w"
  unfolding weighted_square_sum_def using assms by (intro add_nonneg_nonneg mult_nonneg_nonneg) simp_all

lemma epsilon_similar_value:
  assumes "depth a \<noteq> 0" and "depth b \<noteq> 0" and "0 \<le> weighted_square_sum a b w"
  shows "epsilon_similar a b eps w = Inr (sqrt (weighted_square_sum a b w) \<le> eps)"
  using assms
  by (simp add: epsilon_similar_def weighted_distance_value math_sqrt_def)

text \<open>
  Claim C6. For two labels with averages and a weight map under which the weighted sum
  of the squared component differences of their normalised vectors is not negative (as
  it is for non-negative weights), \<^verbatim>\<open>epsilon_similar\<close> returns \<^verbatim>\<open>True\<close> exactly when
  the square root of that sum, the weighted Euclidean distance, is at most \<open>\<epsilon>\<close>.
  The sum runs over the five criteria: the weight under \<open>travel_time\<close> times the
  squared difference of arrival time over 90, under \<open>transfers\<close> of transfers over 3,
  under \<open>transfer_difficulty\<close> of the maximal difficulty, under \<open>convenience\<close> of mean
  convenience over 5, under \<open>congestion\<close> of mean congestion over 1.3. Each weight is
  \<open>0.2\<close> when the map has no entry for the criterion.
\<close>

theorem epsilon_similar_iff_distance:
  assumes "depth a \<noteq> 0" and "depth b \<noteq> 0"
    and "0 \<le> weight_of w ''travel_time'' * (arrival_time a / 90 - arrival_time b / 90)\<^sup>2
           + weight_of w ''transfers''
               * (real_of_int (transfers a) / 3 - real_of_int (transfers b) / 3)\<^sup>2
           + weight_of w ''transfer_difficulty''
               * (max_transfer_difficulty a - max_transfer_difficulty b)\<^sup>2
           + weight_of w ''convenience''
               * ((convenience_sum a / real_of_int (depth a)) / 5
                  - (convenience_sum b / real_of_int (depth b)) / 5)\<^sup>2
           + weight_of w ''congestion''
               * ((congestion_sum a / real_of_int (depth a)) / 1.3
                  - (congestion_sum b / real_of_int (depth b)) / 1.3)\<^sup>2"
  shows "epsilon_similar a b eps w =
           Inr (sqrt (weight_of w ''travel_time''
                        * (arrival_time a / 90 - arrival_time b / 90)\<^sup>2
                    + weight_of w ''transfers''
                        * (real_of_int (transfers a) / 3 - real_of_int (transfers b) / 3)\<^sup>2
                    + weight_of w ''transfer_difficulty''
                        * (max_transfer_difficulty a - max_transfer_difficulty b)\<^sup>2
                    + weight_of w ''convenience''
                        * ((convenience_sum a / real_of_int (depth a)) / 5
                           - (convenience_sum b / real_of_int (depth b)) / 5)\<^sup>2
                    + weight_of w ''congestion''
                        * ((congestion_sum a / real_of_int (depth a)) / 1.3
                           - (congestion_sum b / real_of_int (depth b)) / 1.3)\<^sup>2)
                \<le> eps)"
proof -
  from assms(3) have "0 \<le> weighted_square_sum a b w"
    by (simp only: weighted_square_sum_def mean_convenience_def mean_congestion_def)
  from epsilon_similar_value [OF assms(1,2) this] show ?thesis
    by (simp only: weighted_square_sum_def mean_convenience_def mean_congestion_def)
qed

text \<open>
  The two labels of the witness differ on all five criteria; the weight maps give
  \<open>travel_time\<close> and \<open>transfers\<close> and leave the other three criteria to the default.
  With the weights 2 and 1/4 the sum of squares is \<open>3273 / 3380\<close> and the labels are
  similar for \<open>\<epsilon> = 1\<close>; with the two weights exchanged it is \<open>30837 / 13520\<close> and
  they are not.
\<close>

theorem epsilon_similar_iff_distance_witness:
  "depth example_slow \<noteq> 0 \<and> depth example_other \<noteq> 0
   \<and> epsilon_similar example_slow example_other 1
         [''travel_time'' \<mapsto> 2, ''transfers'' \<mapsto> 1/4] = Inr True
   \<and> epsilon_similar example_slow example_other 1
         [''travel_time'' \<mapsto> 1/4, ''transfers'' \<mapsto> 2] = Inr False"
proof -
  have d1: "depth example_slow \<noteq> 0" and d2: "depth example_other \<noteq> 0"
    by (simp_all add: example_slow_def example_other_def)
  have t: "epsilon_similar example_slow example_other 1
             [''travel_time'' \<mapsto> 2, ''transfers'' \<mapsto> 1/4] = Inr True"
    by (rule epsilon_similar_iff_distance [OF d1 d2, THEN trans])
       (simp_all add: example_slow_def example_other_def weight_of_def power2_eq_square)
  have f: "epsilon_similar example_slow example_other 1
             [''travel_time'' \<mapsto> 1/4, ''transfers'' \<mapsto> 2] = Inr False"
    by (rule epsilon_similar_iff_distance [OF d1 d2, THEN trans])
       (simp_all add: example_slow_def example_other_def weight_of_def power2_eq_square)
  from d1 d2 t f show ?thesis by simp
qed

section \<open>Properties of the reconstruction\<close>

subsection \<open>The sweep between two stations of a line\<close>

lemma length_list_sort: "length (list_sort k r xs) = length xs"
  by (simp add: list_sort_def)

lemma list_sort_Nil_iff: "list_sort k r xs = [] \<longleftrightarrow> xs = []"
  using length_list_sort [of k r xs] by (metis length_0_conv)

lemma set_list_sort: "set (list_sort k r xs) = set xs"
  by (simp add: list_sort_def)

lemma intermediate_missing_order:
  "map_of som (f, line) = None \<or> map_of som (t, line) = None \<Longrightarrow>
   get_intermediate_stations f t line d ls som = [t]"
  by (auto simp: get_intermediate_stations_def split: option.splits)

lemma intermediate_empty_range:
  assumes "map_of som (f, line) = Some fo" and "map_of som (t, line) = Some tor"
    and "\<forall>((s_cd, s_line), s_order) \<in> set som.
           \<not> (s_line = line \<and> min fo tor < s_order \<and> s_order \<le> max fo tor)"
  shows "get_intermediate_stations f t line d ls som = [t]"
proof -
  have "filter (\<lambda>((s_cd, s_line), s_order).
                  s_line = line \<and> min fo tor < s_order \<and> s_order \<le> max fo tor) som = []"
    using assms(3) by (auto simp: filter_empty_conv)
  with assms(1,2) show ?thesis
    by (simp add: get_intermediate_stations_def list_sort_def)
qed

text \<open>
  When both order indices are known and differ, the range \<open>(min, max]\<close> holds the
  endpoint of the larger index, so the result is the sorted list of candidates.
\<close>

lemma intermediate_candidates:
  assumes "map_of som (f, line) = Some fo" and "map_of som (t, line) = Some tor"
    and "fo \<noteq> tor"
  shows "get_intermediate_stations f t line d ls som =
           map snd (list_sort fst (\<not> fo < tor)
             (map (\<lambda>((s_cd, s_line), s_order). (s_order, s_cd))
               (filter (\<lambda>((s_cd, s_line), s_order).
                          s_line = line \<and> min fo tor < s_order \<and> s_order \<le> max fo tor)
                  som)))"
proof -
  let ?P = "\<lambda>((s_cd, s_line), s_order).
              s_line = line \<and> min fo tor < s_order \<and> s_order \<le> max fo tor"
  have "((f, line), fo) \<in> set som" and "((t, line), tor) \<in> set som"
    using assms(1,2) by (auto dest: map_of_SomeD)
  with assms(3) have "((if fo < tor then t else f, line), max fo tor) \<in> set (filter ?P som)"
    by (auto simp: max_def min_def)
  then have "filter ?P som \<noteq> []"
    by (metis empty_iff list.set(1))
  then have "map snd (list_sort fst (\<not> fo < tor)
               (map (\<lambda>((s_cd, s_line), s_order). (s_order, s_cd)) (filter ?P som))) \<noteq> []"
    by (simp add: list_sort_Nil_iff)
  with assms(1,2) show ?thesis
    by (simp add: get_intermediate_stations_def Let_def)
qed

text \<open>
  The stations of a sweep: those of the line with an order index in \<open>(min, max]\<close>,
  whichever way the ride goes.
\<close>

lemma intermediate_station_set:
  assumes "map_of som (f, line) = Some fo" and "map_of som (t, line) = Some tor"
    and "fo \<noteq> tor"
  shows "set (get_intermediate_stations f t line d ls som) =
           {s. \<exists>ord. ((s, line), ord) \<in> set som \<and> min fo tor < ord \<and> ord \<le> max fo tor}"
  unfolding intermediate_candidates [OF assms] set_map set_list_sort
  by (auto simp: image_iff)

text \<open>
  Towards increasing order indices the sweep leaves the start out and ends with the
  destination side; towards decreasing indices the same range \<open>(min, max]\<close> holds
  the start and leaves the destination out.
\<close>

lemma ascending_sweep_ends:
  assumes "distinct (map fst som)"
    and "map_of som (f, line) = Some fo" and "map_of som (t, line) = Some tor"
    and "fo < tor"
  shows "t \<in> set (get_intermediate_stations f t line d ls som)"
    and "f \<notin> set (get_intermediate_stations f t line d ls som)"
proof -
  have ne: "fo \<noteq> tor" using assms(4) by simp
  have "((t, line), tor) \<in> set som" using assms(3) by (rule map_of_SomeD)
  with assms(4) show "t \<in> set (get_intermediate_stations f t line d ls som)"
    unfolding intermediate_station_set [OF assms(2,3) ne] by auto
  show "f \<notin> set (get_intermediate_stations f t line d ls som)"
  proof
    assume "f \<in> set (get_intermediate_stations f t line d ls som)"
    then obtain ord where "((f, line), ord) \<in> set som" and "min fo tor < ord"
      unfolding intermediate_station_set [OF assms(2,3) ne] by auto
    moreover from this(1) assms(1) have "map_of som (f, line) = Some ord"
      by (simp add: map_of_eq_Some_iff)
    ultimately show False using assms(2,4) by simp
  qed
qed

lemma descending_sweep_ends:
  assumes "distinct (map fst som)"
    and "map_of som (f, line) = Some fo" and "map_of som (t, line) = Some tor"
    and "tor < fo"
  shows "f \<in> set (get_intermediate_stations f t line d ls som)"
    and "t \<notin> set (get_intermediate_stations f t line d ls som)"
proof -
  have ne: "fo \<noteq> tor" using assms(4) by simp
  have "((f, line), fo) \<in> set som" using assms(2) by (rule map_of_SomeD)
  with assms(4) show "f \<in> set (get_intermediate_stations f t line d ls som)"
    unfolding intermediate_station_set [OF assms(2,3) ne] by auto
  show "t \<notin> set (get_intermediate_stations f t line d ls som)"
  proof
    assume "t \<in> set (get_intermediate_stations f t line d ls som)"
    then obtain ord where "((t, line), ord) \<in> set som" and "min fo tor < ord"
      unfolding intermediate_station_set [OF assms(2,3) ne] by auto
    moreover from this(1) assms(1) have "map_of som (t, line) = Some ord"
      by (simp add: map_of_eq_Some_iff)
    ultimately show False using assms(3,4) by simp
  qed
qed

text \<open>The order indices along a sweep ascend or descend with the direction of the ride.\<close>

lemma sweep_order_indices:
  assumes "distinct (map fst som)"
    and "map_of som (f, line) = Some fo" and "map_of som (t, line) = Some tor"
    and "fo \<noteq> tor"
  shows "\<exists>ords. map (\<lambda>s. map_of som (s, line)) (get_intermediate_stations f t line d ls som)
                  = map Some ords
               \<and> (if fo < tor then sorted ords else sorted (rev ords))"
proof -
  let ?P = "\<lambda>((s_cd, s_line), s_order).
              s_line = line \<and> min fo tor < s_order \<and> s_order \<le> max fo tor"
  let ?c = "map (\<lambda>((s_cd, s_line), s_order). (s_order, s_cd)) (filter ?P som)"
  let ?L = "list_sort fst (\<not> fo < tor) ?c"
  have look: "map_of som (snd p, line) = Some (fst p)" if "p \<in> set ?L" for p
  proof -
    from that have "p \<in> set ?c" by (simp only: set_list_sort)
    then have "((snd p, line), fst p) \<in> set som" by auto
    with assms(1) show ?thesis by (simp add: map_of_eq_Some_iff)
  qed
  have "map (\<lambda>s. map_of som (s, line)) (map snd ?L) = map Some (map fst ?L)"
    using look by (simp add: comp_def)
  then have "map (\<lambda>s. map_of som (s, line)) (get_intermediate_stations f t line d ls som)
             = map Some (map fst ?L)"
    by (simp only: intermediate_candidates [OF assms(2,3,4)])
  moreover have "if fo < tor then sorted (map fst ?L) else sorted (rev (map fst ?L))"
    by (simp add: list_sort_def rev_map [symmetric])
  ultimately show ?thesis by blast
qed
subsection \<open>Route and line track\<close>

lemma labels_path_nonempty: "labels_path_of l \<noteq> []"
  by (simp add: labels_path_of_def)

lemma last_labels_path: "last (labels_path_of l) = l"
  by (simp add: labels_path_of_def)

lemma labels_path_child:
  "parent_label c = Some p \<Longrightarrow> labels_path_of c = labels_path_of p @ [c]"
  by (simp add: labels_path_of_def)

lemma route_step_prefix:
  "fst il < Suc (length xs) \<Longrightarrow>
   route_step ls som (xs @ ys) il acc = route_step ls som xs il acc"
  by (cases "fst il") (simp_all add: route_step_def Let_def nth_append)

lemma fold_route_step_prefix:
  "fold (route_step ls som (xs @ ys)) (enumerate 0 xs) acc
   = fold (route_step ls som xs) (enumerate 0 xs) acc"
proof (rule fold_cong)
  show "acc = acc" and "enumerate 0 xs = enumerate 0 xs" by simp_all
next
  fix il assume "il \<in> set (enumerate 0 xs)"
  then have "fst il < length xs" by (auto simp: in_set_enumerate_eq)
  then show "route_step ls som (xs @ ys) il = route_step ls som xs il"
    by (intro ext route_step_prefix) simp
qed

text \<open>The route of a child is the route of its parent, extended by one step of the loop.\<close>

lemma reconstruct_route_child:
  assumes "parent_label c = Some p"
  shows "reconstruct_route c (Some ls) (Some som) =
           route_step ls som (labels_path_of c) (length (labels_path_of p), c)
             (reconstruct_route p (Some ls) (Some som))"
  using assms
  by (simp add: reconstruct_route_def Let_def labels_path_child enumerate_append_eq
      fold_route_step_prefix)

lemma previous_label_of_child:
  assumes "parent_label c = Some p"
  shows "labels_path_of c ! (length (labels_path_of p) - 1) = p"
proof -
  have "labels_path_of p \<noteq> []" by (rule labels_path_nonempty)
  then have "(labels_path_of p @ [c]) ! (length (labels_path_of p) - 1)
             = last (labels_path_of p)"
    by (simp add: nth_append last_conv_nth)
  with assms show ?thesis by (simp add: labels_path_child last_labels_path)
qed

lemma reconstruct_route_same_line:
  assumes "parent_label c = Some p" and "current_line p = current_line c"
  shows "reconstruct_route c (Some ls) (Some som) =
           reconstruct_route p (Some ls) (Some som) @
           get_intermediate_stations (current_station_cd p) (current_station_cd c)
             (current_line c) (current_direction c) ls som"
proof -
  have "length (labels_path_of p) \<noteq> 0" using labels_path_nonempty [of p] by simp
  with previous_label_of_child [OF assms(1)] assms(2) show ?thesis
    unfolding reconstruct_route_child [OF assms(1)]
    by (simp add: route_step_def Let_def)
qed

lemma step_lengths:
  "length acc1 = length acc2 \<Longrightarrow>
   length (route_step ls som p il acc1) = length (lines_step ls som p il acc2)"
  by (simp add: route_step_def lines_step_def Let_def)

lemma fold_step_lengths:
  "length acc1 = length acc2 \<Longrightarrow>
   length (fold (route_step ls som p) es acc1) = length (fold (lines_step ls som p) es acc2)"
proof (induction es arbitrary: acc1 acc2)
  case Nil
  then show ?case by simp
next
  case (Cons e es)
  from Cons.prems have "length (route_step ls som p e acc1) = length (lines_step ls som p e acc2)"
    by (rule step_lengths)
  then show ?case by (simp add: Cons.IH)
qed

text \<open>
  Claim C8. Whatever \<^verbatim>\<open>line_stations\<close> and \<^verbatim>\<open>station_order_map\<close> are (given or
  \<^verbatim>\<open>None\<close>, in any combination), \<^verbatim>\<open>reconstruct_lines\<close> returns a list as long as the
  one \<^verbatim>\<open>reconstruct_route\<close> returns on the same arguments.
\<close>

theorem reconstruct_lines_length:
  "length (reconstruct_lines self line_stations station_order_map)
   = length (reconstruct_route self line_stations station_order_map)"
proof (cases line_stations)
  case None
  then show ?thesis
    by (simp add: reconstruct_lines_def reconstruct_route_def labels_path_of_def)
next
  case ls: (Some ls)
  show ?thesis
  proof (cases station_order_map)
    case None
    with ls show ?thesis
      by (simp add: reconstruct_lines_def reconstruct_route_def labels_path_of_def)
  next
    case (Some som)
    have "length (fold (route_step ls som (labels_path_of self))
                    (enumerate 0 (labels_path_of self)) [])
          = length (fold (lines_step ls som (labels_path_of self))
                    (enumerate 0 (labels_path_of self)) [])"
      by (rule fold_step_lengths) simp
    with ls Some show ?thesis
      by (simp add: reconstruct_lines_def reconstruct_route_def Let_def)
  qed
qed


text \<open>
  Claim C10. When the order index of the start or of the destination is missing from
  \<^verbatim>\<open>station_order_map\<close>, or both are there and no station of the line has an order index
  in the range \<open>(min, max]\<close> of the two, \<^verbatim>\<open>_get_intermediate_stations\<close> returns the
  one-element list of the destination station (the function has no raising branch).
  The reconstruction goes on: for a child on the line of its parent, the route is the
  route of the parent followed by the station of the child alone.
\<close>

theorem get_intermediate_stations_fallback:
  assumes "map_of som (f, line) = None \<or> map_of som (t, line) = None
           \<or> (\<exists>fo tor. map_of som (f, line) = Some fo \<and> map_of som (t, line) = Some tor
                \<and> (\<forall>((s_cd, s_line), s_order) \<in> set som.
                      \<not> (s_line = line \<and> min fo tor < s_order \<and> s_order \<le> max fo tor)))"
  shows "get_intermediate_stations f t line d ls som = [t]
         \<and> (\<forall>c p. parent_label c = Some p \<and> current_line p = line \<and> current_line c = line
                \<and> current_station_cd p = f \<and> current_station_cd c = t
              \<longrightarrow> reconstruct_route c (Some ls) (Some som)
                  = reconstruct_route p (Some ls) (Some som) @ [t])"
proof -
  have fb: "get_intermediate_stations f t line d ls som = [t]" for d
    using assms
  proof (elim disjE exE conjE)
    assume "map_of som (f, line) = None"
    then show ?thesis by (simp add: intermediate_missing_order)
  next
    assume "map_of som (t, line) = None"
    then show ?thesis by (simp add: intermediate_missing_order)
  next
    fix fo tor
    assume "map_of som (f, line) = Some fo" and "map_of som (t, line) = Some tor"
      and "\<forall>((s_cd, s_line), s_order) \<in> set som.
             \<not> (s_line = line \<and> min fo tor < s_order \<and> s_order \<le> max fo tor)"
    then show ?thesis by (rule intermediate_empty_range)
  qed
  show ?thesis
  proof (intro conjI allI impI)
    show "get_intermediate_stations f t line d ls som = [t]" by (rule fb)
  next
    fix c p
    assume a: "parent_label c = Some p \<and> current_line p = line \<and> current_line c = line
               \<and> current_station_cd p = f \<and> current_station_cd c = t"
    then have "reconstruct_route c (Some ls) (Some som) =
                 reconstruct_route p (Some ls) (Some som) @
                 get_intermediate_stations f t line (current_direction c) ls som"
      using reconstruct_route_same_line [of c p ls som] by simp
    then show "reconstruct_route c (Some ls) (Some som)
               = reconstruct_route p (Some ls) (Some som) @ [t]"
      by (simp add: fb)
  qed
qed

theorem get_intermediate_stations_fallback_witness:
  "map_of example_order_map (''Z'', ''L'') = None
   \<and> get_intermediate_stations ''A'' ''Z'' ''L'' ''up'' [] example_order_map = [''Z'']
   \<and> get_intermediate_stations ''Z'' ''A'' ''L'' ''up'' [] example_order_map = [''A'']
   \<and> map_of example_order_map (''B'', ''L'') = Some 2
   \<and> get_intermediate_stations ''B'' ''B'' ''L'' ''up'' [] example_order_map = [''B'']"
proof -
  have z: "map_of example_order_map (''Z'', ''L'') = None"
    by (simp add: example_order_map_def)
  have b: "map_of example_order_map (''B'', ''L'') = Some 2"
    by (simp add: example_order_map_def)
  have r: "\<forall>((s_cd, s_line), s_order) \<in> set example_order_map.
             \<not> (s_line = ''L'' \<and> min 2 2 < s_order \<and> s_order \<le> max 2 2)"
    by (simp add: example_order_map_def)
  have h1: "map_of example_order_map (''A'', ''L'') = None
            \<or> map_of example_order_map (''Z'', ''L'') = None
            \<or> (\<exists>fo tor. map_of example_order_map (''A'', ''L'') = Some fo
                  \<and> map_of example_order_map (''Z'', ''L'') = Some tor
                  \<and> (\<forall>((s_cd, s_line), s_order) \<in> set example_order_map.
                        \<not> (s_line = ''L'' \<and> min fo tor < s_order \<and> s_order \<le> max fo tor)))"
    using z by (rule disjI2 [OF disjI1])
  have h2: "map_of example_order_map (''Z'', ''L'') = None
            \<or> map_of example_order_map (''A'', ''L'') = None
            \<or> (\<exists>fo tor. map_of example_order_map (''Z'', ''L'') = Some fo
                  \<and> map_of example_order_map (''A'', ''L'') = Some tor
                  \<and> (\<forall>((s_cd, s_line), s_order) \<in> set example_order_map.
                        \<not> (s_line = ''L'' \<and> min fo tor < s_order \<and> s_order \<le> max fo tor)))"
    using z by (rule disjI1)
  have h3: "map_of example_order_map (''B'', ''L'') = None
            \<or> map_of example_order_map (''B'', ''L'') = None
            \<or> (\<exists>fo tor. map_of example_order_map (''B'', ''L'') = Some fo
                  \<and> map_of example_order_map (''B'', ''L'') = Some tor
                  \<and> (\<forall>((s_cd, s_line), s_order) \<in> set example_order_map.
                        \<not> (s_line = ''L'' \<and> min fo tor < s_order \<and> s_order \<le> max fo tor)))"
    using b r by (intro disjI2 exI conjI)
  from get_intermediate_stations_fallback [OF h1, of "''up''" "[]"]
  have 1: "get_intermediate_stations ''A'' ''Z'' ''L'' ''up'' [] example_order_map = [''Z'']"
    by (rule conjunct1)
  from get_intermediate_stations_fallback [OF h2, of "''up''" "[]"]
  have 2: "get_intermediate_stations ''Z'' ''A'' ''L'' ''up'' [] example_order_map = [''A'']"
    by (rule conjunct1)
  from get_intermediate_stations_fallback [OF h3, of "''up''" "[]"]
  have 3: "get_intermediate_stations ''B'' ''B'' ''L'' ''up'' [] example_order_map = [''B'']"
    by (rule conjunct1)
  from z b 1 2 3 show ?thesis by simp
qed

text \<open>
  Claim C2, on a ride towards decreasing order indices. The line \<open>L\<close> has \<open>A\<close>, \<open>B\<close>,
  \<open>C\<close> at the indices 3, 2, 1; the parent label is at \<open>A\<close>, its child at \<open>C\<close>. The
  sweep from \<open>A\<close> to \<open>C\<close> is \<open>[A, B]\<close>: it holds the start and leaves the destination
  out, and the reconstructed route \<open>[A, A, B]\<close> never reaches \<open>C\<close>. The claim asks for
  \<open>[B, C]\<close> and the route \<open>[A, B, C]\<close>.
\<close>

theorem descending_sweep_example:
  "get_intermediate_stations ''A'' ''C'' ''L'' ''down'' [] example_order_map = [''A'', ''B'']
   \<and> reconstruct_route example_leaf (Some []) (Some example_order_map) = [''A'', ''A'', ''B'']"
proof -
  have g: "get_intermediate_stations ''A'' ''C'' ''L'' ''down'' [] example_order_map
           = [''A'', ''B'']"
    by (simp add: get_intermediate_stations_def example_order_map_def list_sort_def Let_def)
  have "reconstruct_route example_leaf (Some []) (Some example_order_map) = [''A'', ''A'', ''B'']"
    by (simp add: reconstruct_route_def labels_path_of_def example_leaf_def example_root_def
        route_step_def enumerate_eq_zip upt_rec Let_def g)
  with g show ?thesis by simp
qed

section \<open>The legacy label\<close>

text \<open>
  Claim C9. On every instance of the legacy class and for every weight map,
  \<^verbatim>\<open>calculate_weighted_score\<close> returns no score: the read of \<^verbatim>\<open>convenience_score\<close>
  raises \<^verbatim>\<open>AttributeError\<close>, as a read of \<^verbatim>\<open>congestion_score\<close> would; of the
  convenience only the running sum \<^verbatim>\<open>convenience_sum\<close> is an attribute.
\<close>

theorem calculate_weighted_score_legacy_fails:
  "calculate_weighted_score_legacy self anp_weights = Inl AttributeError
   \<and> getattr_legacy self ''convenience_score'' = Inl AttributeError
   \<and> getattr_legacy self ''congestion_score'' = Inl AttributeError
   \<and> getattr_legacy self ''convenience_sum'' = Inr (PyFloat (convenience_sum_legacy self))
   \<and> getattr_legacy self ''congestion_sum'' = Inr (PyFloat (congestion_sum_legacy self))"
  by (simp add: calculate_weighted_score_legacy_def getattr_legacy_def legacy_method_names_def
      Let_def)

end
